theory Spec2Isabelle
  imports Main
begin

section \<open>Discount-claim endpoint: data model\<close>

text \<open>
  The development embeds the API route \<open>handler\<close> and its helper \<open>signMessage\<close>.
  Exceptions are values of type \<open>error\<close>; the external collaborators (attestation
  provider, identity-linking provider, key/value store faults, cryptographic primitives)
  are fields of the record \<open>env\<close>; the key/value store is passed explicitly and every
  call to a collaborator is recorded in an event list.
\<close>

datatype error =
    SyntaxError
  | TypeError
  | InvalidAddressError
  | IntegerOutOfRangeError
  | Failure string

text \<open>The source type \<open>PreviousClaim\<close>: what the key/value store holds for a key.\<close>

record PreviousClaim =
  address :: string
  signedMessage :: string

text \<open>
  Values produced by \<open>JSON.parse\<close>. Numbers are kept as integers; the handler never
  inspects them.
\<close>

datatype json =
    JNull
  | JBool bool
  | JNum int
  | JStr string
  | JArr "json list"
  | JObj "(string \<times> json) list"

text \<open>
  An attestation record of the provider; the handler reads its field
  \<open>decodedDataJson\<close> only.
\<close>

record attestation =
  decodedDataJson :: string

text \<open>
  The source type \<open>CoinbaseProofResponse\<close>. Every field is an option: a field whose value is
  \<open>undefined\<close> is dropped from the JSON body. The field \<open>signedMessage\<close> carries a prime
  here because \<open>PreviousClaim\<close> has a field of the same name. An element of \<open>attestations\<close>
  is \<open>None\<close> where the source's cast \<open>JSON.parse(...)[0] as VerifiedAccount\<close> yields
  \<open>undefined\<close>.
\<close>

record CoinbaseProofResponse =
  signedMessage' :: "string option"
  attestations :: "json option list option"
  linkedAddresses :: "string list option"

datatype body =
    ErrorBody string
  | ProofBody CoinbaseProofResponse

record response =
  status :: nat
  body :: body

text \<open>
  What a run of the handler ends in: a response written through \<open>res\<close>, or an exception
  that leaves the handler (the returned promise rejects and the handler wrote nothing).
\<close>

datatype outcome =
    Responded response
  | Uncaught error

text \<open>\<open>req.query.address\<close> has type \<open>string | string[] | undefined\<close>.\<close>

datatype queryVal =
    QAbsent
  | QStr string
  | QArr "string list"

record request =
  httpMethod :: "string option"
  queryAddress :: queryVal

datatype chain = Base | BaseSepolia

text \<open>
  The module constant \<open>expiry\<close> is either the number 300 or, when the environment
  variable is set, the variable's string (the cast to \<open>number\<close> does nothing at run time).
\<close>

datatype expiryVal =
    Num int
  | Str string

text \<open>
  Constants imported from \<open>apps/web/src/constants\<close> and the process environment.
\<close>

record config =
  isDevelopment :: bool
  trustedSignerAddress :: string
  trustedSignerPKey :: "string option"
  verifiedAccountSchemaId :: "string option"
  verifiedCb1AccountSchemaId :: "string option"
  expirationSecondsEnv :: "string option"

type_synonym kvstore = "string \<rightharpoonup> (PreviousClaim \<times> expiryVal)"

text \<open>
  The collaborators and library primitives the route calls. A store access can fail
  (\<open>kvGetFault\<close>, \<open>kvSetFault\<close>); when it does not, it acts on the explicit store.
\<close>

record env =
  getAttestations :: "string \<Rightarrow> chain \<Rightarrow> string list \<Rightarrow> error + attestation list"
  jsonParse :: "string \<Rightarrow> error + json"
  getLinkedAddresses :: "string \<Rightarrow> error + (string list \<times> string)"
  kvGetFault :: "string \<Rightarrow> error option"
  kvSetFault :: "string \<Rightarrow> PreviousClaim \<Rightarrow> expiryVal \<Rightarrow> error option"
  checksumAddress :: "string \<Rightarrow> string"
  keccak256 :: "string \<Rightarrow> string"
  privateKeyToAccount :: "string \<Rightarrow> error + string"
  accountSignMessage :: "string \<Rightarrow> string \<Rightarrow> error + string"
  bigIntOfString :: "string \<Rightarrow> error + int"
  encodeAbiParameters :: "string \<Rightarrow> int \<Rightarrow> string \<Rightarrow> error + string"

datatype event =
    EvGetAttestations string
  | EvGetLinkedAddresses string
  | EvKvGet string
  | EvKvSet string PreviousClaim expiryVal
  | EvSignMessage string
  | EvConsoleError error

definition expiry :: "config \<Rightarrow> expiryVal" where
  "expiry cfg = (case expirationSecondsEnv cfg of None \<Rightarrow> Num 300 | Some s \<Rightarrow> Str s)"

definition previousClaimsKVPrefix :: string where
  "previousClaimsKVPrefix = ''username:claims:''"

definition chainOf :: "config \<Rightarrow> chain" where
  "chainOf cfg = (if isDevelopment cfg then BaseSepolia else Base)"

section \<open>Library primitives used by the route\<close>

definition lowerChar :: "char \<Rightarrow> char" where
  "lowerChar c =
     (let n = (of_char c :: nat) in if 65 \<le> n \<and> n \<le> 90 then char_of (n + 32) else c)"

definition toLowerCase :: "string \<Rightarrow> string" where
  "toLowerCase s = map lowerChar s"

definition isHexDigit :: "char \<Rightarrow> bool" where
  "isHexDigit c =
     (let n = (of_char c :: nat)
      in (48 \<le> n \<and> n \<le> 57) \<or> (65 \<le> n \<and> n \<le> 70) \<or> (97 \<le> n \<and> n \<le> 102))"

text \<open>viem's \<open>isHex\<close> (strict): the pattern \<open>^0x[0-9a-fA-F]*$\<close>.\<close>

definition isHex :: "string \<Rightarrow> bool" where
  "isHex s = (take 2 s = ''0x'' \<and> list_all isHexDigit (drop 2 s))"

text \<open>
  viem's \<open>isAddress\<close>: the pattern \<open>^0x[a-fA-F0-9]{40}$\<close>, then an all-lower-case string
  passes and any other must equal its checksummed spelling.
\<close>

definition addressRegex :: "string \<Rightarrow> bool" where
  "addressRegex s = (take 2 s = ''0x'' \<and> length s = 42 \<and> list_all isHexDigit (drop 2 s))"

definition isAddress :: "env \<Rightarrow> string \<Rightarrow> bool" where
  "isAddress e s =
     (if \<not> addressRegex s then False
      else if toLowerCase s = s then True
      else checksumAddress e s = s)"

definition hexDigit :: "nat \<Rightarrow> char" where
  "hexDigit d = ''0123456789abcdef'' ! (d mod 16)"

fun hexPad :: "nat \<Rightarrow> nat \<Rightarrow> string" where
  "hexPad 0 n = []"
| "hexPad (Suc k) n = hexPad k (n div 16) @ [hexDigit (n mod 16)]"

text \<open>
  viem's \<open>encodePacked\<close> at the type list \<open>[bytes2, address, address, uint256]\<close> with first
  value \<open>0x1900\<close>: each address is checked and lower-cased, the integer is written as 32
  big-endian bytes (out of range raises), and the pieces are concatenated without padding.
  The result is the hex string of the packed bytes.
\<close>

definition encodePacked :: "env \<Rightarrow> string \<Rightarrow> string \<Rightarrow> int \<Rightarrow> error + string" where
  "encodePacked e signer claimer n =
     (if \<not> isAddress e signer then Inl InvalidAddressError
      else if \<not> isAddress e claimer then Inl InvalidAddressError
      else if n < 0 \<or> 2 ^ 256 \<le> n then Inl IntegerOutOfRangeError
      else Inr (''0x'' @ ''1900'' @ drop 2 (toLowerCase signer) @ drop 2 (toLowerCase claimer)
                @ hexPad 64 (nat n)))"

text \<open>\<open>BigInt(expiry)\<close>: the number 300 converts as it is, a string is parsed.\<close>

definition bigInt :: "env \<Rightarrow> expiryVal \<Rightarrow> error + int" where
  "bigInt e v = (case v of Num n \<Rightarrow> Inr n | Str s \<Rightarrow> bigIntOfString e s)"

text \<open>
  The expression \<open>JSON.parse(s)[0]\<close> on a parsed value: reading a property of \<open>null\<close>
  raises, a missing property is \<open>undefined\<close>, and of duplicate object keys the last wins.
\<close>

fun index0 :: "json \<Rightarrow> error + json option" where
  "index0 JNull = Inl TypeError"
| "index0 (JBool b) = Inr None"
| "index0 (JNum n) = Inr None"
| "index0 (JStr s) = Inr (case s of [] \<Rightarrow> None | c # cs \<Rightarrow> Some (JStr [c]))"
| "index0 (JArr xs) = Inr (case xs of [] \<Rightarrow> None | x # ys \<Rightarrow> Some x)"
| "index0 (JObj kvs) = Inr (map_of (rev kvs) ''0'')"

text \<open>The store's two operations, \<open>kv.get\<close> and \<open>kv.set\<close> with the option \<open>ex\<close>.\<close>

definition kvGet :: "env \<Rightarrow> kvstore \<Rightarrow> string \<Rightarrow> error + PreviousClaim option" where
  "kvGet e kv key =
     (case kvGetFault e key of
        Some err \<Rightarrow> Inl err
      | None \<Rightarrow> Inr (map_option fst (kv key)))"

definition kvSet :: "env \<Rightarrow> kvstore \<Rightarrow> string \<Rightarrow> PreviousClaim \<Rightarrow> expiryVal \<Rightarrow> error + kvstore" where
  "kvSet e kv key claim ex =
     (case kvSetFault e key claim ex of
        Some err \<Rightarrow> Inl err
      | None \<Rightarrow> Inr (kv(key \<mapsto> (claim, ex))))"

section \<open>The route\<close>

text \<open>\<open>signMessage\<close>: account from the key, packed message, hash, signature, ABI tuple.\<close>

definition messageOf :: "env \<Rightarrow> config \<Rightarrow> string \<Rightarrow> error + string" where
  "messageOf e cfg claimerAddress =
     (case bigInt e (expiry cfg) of
        Inl err \<Rightarrow> Inl err
      | Inr n \<Rightarrow> encodePacked e (trustedSignerAddress cfg) claimerAddress n)"

definition signMessage :: "env \<Rightarrow> config \<Rightarrow> string \<Rightarrow> error + string" where
  "signMessage e cfg claimerAddress =
     (case trustedSignerPKey cfg of
        None \<Rightarrow> Inl TypeError
      | Some pkey \<Rightarrow>
     (case privateKeyToAccount e pkey of
        Inl err \<Rightarrow> Inl err
      | Inr account \<Rightarrow>
     (case messageOf e cfg claimerAddress of
        Inl err \<Rightarrow> Inl err
      | Inr message \<Rightarrow>
     (let msgHash = keccak256 e message in
     (case accountSignMessage e account msgHash of
        Inl err \<Rightarrow> Inl err
      | Inr signature \<Rightarrow>
     (case bigInt e (expiry cfg) of
        Inl err \<Rightarrow> Inl err
      | Inr n \<Rightarrow> encodeAbiParameters e claimerAddress n signature))))))"

text \<open>The \<open>map\<close> over the attestations: the first decode that raises ends it.\<close>

fun decodeAll :: "env \<Rightarrow> attestation list \<Rightarrow> error + json option list" where
  "decodeAll e [] = Inr []"
| "decodeAll e (a # as) =
     (case jsonParse e (decodedDataJson a) of
        Inl err \<Rightarrow> Inl err
      | Inr j \<Rightarrow>
     (case index0 j of
        Inl err \<Rightarrow> Inl err
      | Inr v \<Rightarrow>
     (case decodeAll e as of
        Inl err \<Rightarrow> Inl err
      | Inr vs \<Rightarrow> Inr (v # vs))))"

text \<open>
  The body of the \<open>try\<close> block. \<open>Inl\<close> is an exception raised inside it; the store and the
  events up to that point are returned with it.
\<close>

definition tryBlock ::
  "env \<Rightarrow> config \<Rightarrow> string \<Rightarrow> json option list \<Rightarrow> kvstore
     \<Rightarrow> (error + response) \<times> kvstore \<times> event list" where
  "tryBlock e cfg addr attestationsRes kv =
     (case getLinkedAddresses e addr of
        Inl err \<Rightarrow> (Inl err, kv, [EvGetLinkedAddresses addr])
      | Inr (linked, idemKey) \<Rightarrow>
     (let kvKey = previousClaimsKVPrefix @ idemKey in
     (case kvGet e kv kvKey of
        Inl err \<Rightarrow> (Inl err, kv, [EvGetLinkedAddresses addr, EvKvGet kvKey])
      | Inr (Some previousClaim) \<Rightarrow>
          if address previousClaim \<noteq> addr
          then (Inr \<lparr>status = 409, body = ErrorBody '' ''\<rparr>, kv,
                [EvGetLinkedAddresses addr, EvKvGet kvKey])
          else (Inr \<lparr>status = 200, body = ProofBody
                   \<lparr>signedMessage' = Some (signedMessage previousClaim),
                    attestations = Some attestationsRes,
                    linkedAddresses = Some linked\<rparr>\<rparr>, kv,
                [EvGetLinkedAddresses addr, EvKvGet kvKey])
      | Inr None \<Rightarrow>
     (case signMessage e cfg addr of
        Inl err \<Rightarrow>
          (Inl err, kv, [EvGetLinkedAddresses addr, EvKvGet kvKey, EvSignMessage addr])
      | Inr signed \<Rightarrow>
     (let claim = \<lparr>address = addr, signedMessage = signed\<rparr> in
     (case kvSet e kv kvKey claim (expiry cfg) of
        Inl err \<Rightarrow>
          (Inl err, kv,
           [EvGetLinkedAddresses addr, EvKvGet kvKey, EvSignMessage addr,
            EvKvSet kvKey claim (expiry cfg)])
      | Inr kv' \<Rightarrow>
          (Inr \<lparr>status = 200, body = ProofBody
                   \<lparr>signedMessage' = Some (signedMessage claim),
                    attestations = Some attestationsRes,
                    linkedAddresses = Some linked\<rparr>\<rparr>, kv',
           [EvGetLinkedAddresses addr, EvKvGet kvKey, EvSignMessage addr,
            EvKvSet kvKey claim (expiry cfg)])))))))"

text \<open>The \<open>try\<close>/\<open>catch\<close>: an exception of the block is logged and answered with 500.\<close>

definition tryCatch ::
  "env \<Rightarrow> config \<Rightarrow> string \<Rightarrow> json option list \<Rightarrow> kvstore
     \<Rightarrow> outcome \<times> kvstore \<times> event list" where
  "tryCatch e cfg addr attestationsRes kv =
     (case tryBlock e cfg addr attestationsRes kv of
        (Inl err, kv', evs) \<Rightarrow>
          (Responded \<lparr>status = 500, body = ErrorBody ''error generating discount message''\<rparr>,
           kv', evs @ [EvConsoleError err])
      | (Inr r, kv', evs) \<Rightarrow> (Responded r, kv', evs))"

text \<open>
  The part of the handler from the attestation query on; the query and the decoding of
  its result stand before the \<open>try\<close>, so an exception there leaves the handler.
  The provider is declared to return a list, so the optional chaining in
  \<open>!attestations?.length\<close> tests for the empty list.
\<close>

definition queryAndClaim ::
  "env \<Rightarrow> config \<Rightarrow> string \<Rightarrow> string \<Rightarrow> string \<Rightarrow> kvstore \<Rightarrow> outcome \<times> kvstore \<times> event list" where
  "queryAndClaim e cfg addr schema1 schema2 kv =
     (case getAttestations e addr (chainOf cfg) [schema1, schema2] of
        Inl err \<Rightarrow> (Uncaught err, kv, [EvGetAttestations addr])
      | Inr atts \<Rightarrow>
          if atts = []
          then (Responded \<lparr>status = 200, body = ProofBody
                   \<lparr>signedMessage' = None, attestations = Some [], linkedAddresses = None\<rparr>\<rparr>,
                kv, [EvGetAttestations addr])
          else
     (case decodeAll e atts of
        Inl err \<Rightarrow> (Uncaught err, kv, [EvGetAttestations addr])
      | Inr attestationsRes \<Rightarrow>
     (case tryCatch e cfg addr attestationsRes kv of
        (out, kv', evs) \<Rightarrow> (out, kv', EvGetAttestations addr # evs))))"

text \<open>
  The test \<open>!address || Array.isArray(address) || !isAddress(address)\<close>: the address the
  request carries when the test is false.
\<close>

fun validAddress :: "env \<Rightarrow> queryVal \<Rightarrow> string option" where
  "validAddress e QAbsent = None"
| "validAddress e (QArr xs) = None"
| "validAddress e (QStr s) = (if s = [] \<or> \<not> isAddress e s then None else Some s)"

text \<open>
  The configuration guards. \<open>!trustedSignerPKey\<close> holds for \<open>undefined\<close> and for the empty
  string; \<open>isHex\<close> of \<open>undefined\<close> is false. Both schema guards answer with the same text.
\<close>

definition configGuards ::
  "env \<Rightarrow> config \<Rightarrow> string \<Rightarrow> kvstore \<Rightarrow> outcome \<times> kvstore \<times> event list" where
  "configGuards e cfg addr kv =
     (if trustedSignerPKey cfg = None \<or> trustedSignerPKey cfg = Some []
      then (Responded \<lparr>status = 500, body = ErrorBody ''currently unable to sign''\<rparr>, kv, [])
      else
     (case verifiedAccountSchemaId cfg of
        None \<Rightarrow>
          (Responded \<lparr>status = 500, body = ErrorBody ''invalid verifiedCb1AccountSchemaId''\<rparr>,
           kv, [])
      | Some schema1 \<Rightarrow>
          if \<not> isHex schema1
          then (Responded \<lparr>status = 500,
                   body = ErrorBody ''invalid verifiedCb1AccountSchemaId''\<rparr>, kv, [])
          else
     (case verifiedCb1AccountSchemaId cfg of
        None \<Rightarrow>
          (Responded \<lparr>status = 500, body = ErrorBody ''invalid verifiedCb1AccountSchemaId''\<rparr>,
           kv, [])
      | Some schema2 \<Rightarrow>
          if \<not> isHex schema2
          then (Responded \<lparr>status = 500,
                   body = ErrorBody ''invalid verifiedCb1AccountSchemaId''\<rparr>, kv, [])
          else queryAndClaim e cfg addr schema1 schema2 kv)))"

definition handler ::
  "env \<Rightarrow> config \<Rightarrow> request \<Rightarrow> kvstore \<Rightarrow> outcome \<times> kvstore \<times> event list" where
  "handler e cfg req kv =
     (if httpMethod req \<noteq> Some ''GET''
      then (Responded \<lparr>status = 405, body = ErrorBody ''method not allowed''\<rparr>, kv, [])
      else
     (case validAddress e (queryAddress req) of
        None \<Rightarrow>
          (Responded \<lparr>status = 400, body = ErrorBody ''valid address is required''\<rparr>, kv, [])
      | Some addr \<Rightarrow> configGuards e cfg addr kv))"

section \<open>A concrete environment for evaluation\<close>

text \<open>
  Addresses: the first two are the lower-case and the checksummed spelling of one address,
  \<open>addrB\<close> is a second address linked to it, \<open>addrNone\<close> holds no attestation and the
  provider's record for \<open>addrBad\<close> carries a payload that is not JSON.
\<close>

definition addrA :: string where
  "addrA = ''0x5aaeb6053f3e94c9b9a09f33669435e7ef1beaed''"

definition addrAChecksum :: string where
  "addrAChecksum = ''0x5aAeb6053F3E94C9b9A09f33669435E7Ef1BeAed''"

definition addrB :: string where
  "addrB = ''0xfb6916095ca1df60bb79ce92ce3ea74c37c5d359''"

definition addrNone :: string where
  "addrNone = ''0xdbf03b407c01e7cd3cbea99509d93f8dddc8c6fb''"

definition addrBad :: string where
  "addrBad = ''0xd1220a0cf47c7b9be7a2e6ba89f429762e7b9adb''"

definition signerAddr :: string where
  "signerAddr = ''0x52908400098527886e0f7030069857d2e4169ee7''"

text \<open>
  The hash, the signature and the ABI tuple are placeholders: the route treats them as
  opaque strings. The checksum table knows the one mixed-case spelling used here.
\<close>

definition sampleEnv :: env where
  "sampleEnv =
     \<lparr>getAttestations = (\<lambda>a c schemas.
          if a = addrBad then Inr [\<lparr>decodedDataJson = ''{''\<rparr>]
          else if a = addrNone then Inr []
          else Inr [\<lparr>decodedDataJson = ''[true]''\<rparr>]),
      jsonParse = (\<lambda>s. if s = ''[true]'' then Inr (JArr [JBool True]) else Inl SyntaxError),
      getLinkedAddresses = (\<lambda>a. Inr ([addrA, addrB], ''group-1'')),
      kvGetFault = (\<lambda>k. None),
      kvSetFault = (\<lambda>k c x. None),
      checksumAddress = (\<lambda>a. if toLowerCase a = addrA then addrAChecksum else toLowerCase a),
      keccak256 = (\<lambda>m. ''0xh''),
      privateKeyToAccount = (\<lambda>k. Inr k),
      accountSignMessage = (\<lambda>acct h. Inr ''0xs''),
      bigIntOfString = (\<lambda>s. if s = ''600'' then Inr 600 else Inl SyntaxError),
      encodeAbiParameters = (\<lambda>a n sg. Inr (''0xabi'' @ sg))\<rparr>"

definition sampleConfig :: config where
  "sampleConfig =
     \<lparr>isDevelopment = False,
      trustedSignerAddress = signerAddr,
      trustedSignerPKey = Some ''0x01'',
      verifiedAccountSchemaId = Some ''0xf8b0'',
      verifiedCb1AccountSchemaId = Some ''0x254b'',
      expirationSecondsEnv = None\<rparr>"

definition getRequest :: "string \<Rightarrow> request" where
  "getRequest a = \<lparr>httpMethod = Some ''GET'', queryAddress = QStr a\<rparr>"

definition postRequest :: "string \<Rightarrow> request" where
  "postRequest a = \<lparr>httpMethod = Some ''POST'', queryAddress = QStr a\<rparr>"

definition claimA :: PreviousClaim where
  "claimA = \<lparr>address = addrA, signedMessage = ''0xabi0xs''\<rparr>"

definition claimAChecksum :: PreviousClaim where
  "claimAChecksum = \<lparr>address = addrAChecksum, signedMessage = ''0xabi0xs''\<rparr>"

definition keyA :: string where
  "keyA = ''username:claims:group-1''"

definition storeA :: kvstore where
  "storeA = Map.empty(keyA \<mapsto> (claimA, Num 300))"

definition storeAChecksum :: kvstore where
  "storeAChecksum = Map.empty(keyA \<mapsto> (claimAChecksum, Num 300))"

definition configNoKey :: config where
  "configNoKey = sampleConfig\<lparr>trustedSignerPKey := None\<rparr>"

definition configBadExpiry :: config where
  "configBadExpiry = sampleConfig\<lparr>expirationSecondsEnv := Some ''soon''\<rparr>"

section \<open>Observations on a run\<close>

text \<open>
  \<open>found e kv evs k r\<close>: the run with events \<open>evs\<close> looked key \<open>k\<close> up in the store
  \<open>kv\<close> and the lookup returned the record \<open>r\<close>.
\<close>

definition found :: "env \<Rightarrow> kvstore \<Rightarrow> event list \<Rightarrow> string \<Rightarrow> PreviousClaim \<Rightarrow> bool" where
  "found e kv evs k r = (EvKvGet k \<in> set evs \<and> kvGet e kv k = Inr (Some r))"

fun isStoreWrite :: "event \<Rightarrow> bool" where
  "isStoreWrite (EvKvSet k c x) = True"
| "isStoreWrite ev = False"

fun isSignerCall :: "event \<Rightarrow> bool" where
  "isSignerCall (EvSignMessage a) = True"
| "isSignerCall ev = False"

text \<open>
  A configuration one of the three guards rejects: the key is \<open>undefined\<close> or empty, or a
  schema identifier is \<open>undefined\<close> or not hex.
\<close>

definition configBroken :: "config \<Rightarrow> bool" where
  "configBroken cfg =
     (trustedSignerPKey cfg = None \<or> trustedSignerPKey cfg = Some [] \<or>
      (case verifiedAccountSchemaId cfg of None \<Rightarrow> True | Some s \<Rightarrow> \<not> isHex s) \<or>
      (case verifiedCb1AccountSchemaId cfg of None \<Rightarrow> True | Some s \<Rightarrow> \<not> isHex s))"

definition keyAbsent :: "config \<Rightarrow> bool" where
  "keyAbsent cfg = (trustedSignerPKey cfg = None \<or> trustedSignerPKey cfg = Some [])"

section \<open>Facts about the route\<close>

lemmas route_defs = handler_def configGuards_def queryAndClaim_def tryCatch_def tryBlock_def
  kvGet_def kvSet_def Let_def

lemmas route_splits = if_splits option.splits sum.splits prod.splits queryVal.splits

lemmas sample_defs = sampleEnv_def sampleConfig_def getRequest_def postRequest_def
  addrA_def addrAChecksum_def addrB_def addrNone_def addrBad_def signerAddr_def
  claimA_def claimAChecksum_def keyA_def storeA_def storeAChecksum_def
  configNoKey_def configBadExpiry_def

lemma char_of_lower_hex:
  "char_of (97::nat) = CHR ''a''" "char_of (98::nat) = CHR ''b''" "char_of (99::nat) = CHR ''c''"
  "char_of (100::nat) = CHR ''d''" "char_of (101::nat) = CHR ''e''" "char_of (102::nat) = CHR ''f''"
  by code_simp+

lemmas prim_defs = isAddress_def addressRegex_def isHex_def isHexDigit_def toLowerCase_def
  lowerChar_def encodePacked_def signMessage_def messageOf_def bigInt_def expiry_def
  previousClaimsKVPrefix_def chainOf_def found_def char_of_lower_hex

lemma validAddress_Some:
  "validAddress e q = Some a \<longleftrightarrow> q = QStr a \<and> a \<noteq> [] \<and> isAddress e a"
  by (cases q) auto

subsection \<open>The branches after a store hit\<close>

lemma hit_conflict:
  assumes "handler e cfg req kv = (out, kv', evs)"
    and "found e kv evs k r" and "queryAddress req \<noteq> QStr (address r)"
  shows "out = Responded \<lparr>status = 409, body = ErrorBody '' ''\<rparr>" and "kv' = kv"
    and "filter isStoreWrite evs = []"
  using assms
  by (auto simp: route_defs found_def validAddress_Some split: route_splits)

lemma hit_replay:
  assumes "handler e cfg req kv = (out, kv', evs)"
    and "found e kv evs k r" and "queryAddress req = QStr (address r)"
  shows "\<exists>atts linked. out = Responded \<lparr>status = 200, body = ProofBody
            \<lparr>signedMessage' = Some (signedMessage r), attestations = Some atts,
             linkedAddresses = Some linked\<rparr>\<rparr>"
    and "kv' = kv" and "filter isStoreWrite evs = []" and "filter isSignerCall evs = []"
  using assms
  by (auto simp: route_defs found_def validAddress_Some split: route_splits)

lemma handler_keeps_entries:
  assumes "handler e cfg req kv = (out, kv', evs)" and "kv k = Some v"
  shows "kv' k = Some v"
  using assms
  by (auto simp: route_defs validAddress_Some split: route_splits)

text \<open>The handler from the \<open>try\<close> on, once the guards, the query and the decoding passed.\<close>

lemma handler_tried:
  assumes "httpMethod req = Some ''GET''" and "validAddress e (queryAddress req) = Some a"
    and "\<not> configBroken cfg"
    and "verifiedAccountSchemaId cfg = Some s1" and "verifiedCb1AccountSchemaId cfg = Some s2"
    and "getAttestations e a (chainOf cfg) [s1, s2] = Inr atts" and "atts \<noteq> []"
    and "decodeAll e atts = Inr res"
  shows "handler e cfg req kv =
           (case tryCatch e cfg a res kv of
              (out, kv', evs) \<Rightarrow> (out, kv', EvGetAttestations a # evs))"
  using assms
  by (auto simp: handler_def configGuards_def queryAndClaim_def configBroken_def
      split: option.splits)

lemma success_path:
  assumes "handler e cfg req kv = (Responded \<lparr>status = 200, body = ProofBody b\<rparr>, kv', evs)"
    and "signedMessage' b = Some s"
  shows "\<exists>a s1 s2 atts res.
           httpMethod req = Some ''GET'' \<and> validAddress e (queryAddress req) = Some a \<and>
           \<not> configBroken cfg \<and>
           verifiedAccountSchemaId cfg = Some s1 \<and> verifiedCb1AccountSchemaId cfg = Some s2 \<and>
           getAttestations e a (chainOf cfg) [s1, s2] = Inr atts \<and> atts \<noteq> [] \<and>
           decodeAll e atts = Inr res"
  using assms
  by (auto simp: handler_def configGuards_def queryAndClaim_def configBroken_def
      split: if_splits option.splits sum.splits prod.splits)

lemma tryBlock_again:
  assumes "tryBlock e cfg a res kv = (Inr \<lparr>status = 200, body = ProofBody b\<rparr>, kv', evs)"
  shows "\<exists>evs2. tryBlock e cfg a res kv' = (Inr \<lparr>status = 200, body = ProofBody b\<rparr>, kv', evs2) \<and>
           filter isSignerCall evs2 = []"
  using assms
  by (auto simp: tryBlock_def kvGet_def kvSet_def Let_def split: route_splits)
     (metis PreviousClaim.select_convs(2))

lemma second_call:
  assumes run: "handler e cfg req kv = (out, kv', evs)"
    and out: "out = Responded \<lparr>status = 200, body = ProofBody b\<rparr>" and "signedMessage' b = Some s"
  shows "\<exists>evs2. handler e cfg req kv' = (out, kv', evs2) \<and> filter isSignerCall evs2 = []"
proof -
  from success_path [OF run [unfolded out] assms(3)]
  obtain a s1 s2 atts res where path:
    "httpMethod req = Some ''GET''" "validAddress e (queryAddress req) = Some a"
    "\<not> configBroken cfg"
    "verifiedAccountSchemaId cfg = Some s1" "verifiedCb1AccountSchemaId cfg = Some s2"
    "getAttestations e a (chainOf cfg) [s1, s2] = Inr atts" "atts \<noteq> []"
    "decodeAll e atts = Inr res"
    by blast
  note h = handler_tried [OF path]
  from run [unfolded h out] obtain evs1 where
    tb: "tryBlock e cfg a res kv = (Inr \<lparr>status = 200, body = ProofBody b\<rparr>, kv', evs1)"
    by (auto simp: tryCatch_def split: prod.splits sum.splits)
  from tryBlock_again [OF tb] obtain evs2 where
    tb2: "tryBlock e cfg a res kv' = (Inr \<lparr>status = 200, body = ProofBody b\<rparr>, kv', evs2)"
    and quiet: "filter isSignerCall evs2 = []"
    by blast
  have "handler e cfg req kv' = (out, kv', EvGetAttestations a # evs2)"
    by (simp add: h tryCatch_def tb2 out)
  with quiet show ?thesis by simp
qed

subsection \<open>The store write\<close>

lemma store_change:
  assumes "handler e cfg req kv = (out, kv', evs)"
  shows "kv' = kv \<or> (\<exists>k c. kv' = kv(k \<mapsto> (c, expiry cfg)) \<and> kv k = None \<and>
            EvKvSet k c (expiry cfg) \<in> set evs)"
  using assms
  by (auto simp: route_defs validAddress_Some split: route_splits)

lemma write_event:
  assumes "handler e cfg req kv = (out, kv', evs)" and "EvKvSet k c x \<in> set evs"
  shows "queryAddress req = QStr (address c) \<and>
         signMessage e cfg (address c) = Inr (signedMessage c) \<and> x = expiry cfg"
  using assms
  by (auto simp: route_defs validAddress_Some split: route_splits)

lemma error_keeps_store:
  assumes "handler e cfg req kv = (out, kv', evs)"
    and "\<forall>b. out \<noteq> Responded \<lparr>status = 200, body = b\<rparr>"
  shows "kv' = kv"
  using assms
  by (auto simp: route_defs validAddress_Some split: route_splits)

lemma sign_failure_keeps_store:
  assumes "handler e cfg req kv = (out, kv', evs)"
    and "queryAddress req = QStr a" and "signMessage e cfg a = Inl err"
  shows "kv' = kv \<and> filter isStoreWrite evs = []"
  using assms
  by (auto simp: route_defs validAddress_Some split: route_splits)

subsection \<open>The attestation query and the guards before it\<close>

lemma empty_attestations:
  assumes "handler e cfg req kv = (out, kv', evs)"
    and "EvGetAttestations a \<in> set evs"
    and "verifiedAccountSchemaId cfg = Some s1" and "verifiedCb1AccountSchemaId cfg = Some s2"
    and "getAttestations e a (chainOf cfg) [s1, s2] = Inr []"
  shows "out = Responded \<lparr>status = 200, body = ProofBody
            \<lparr>signedMessage' = None, attestations = Some [], linkedAddresses = None\<rparr>\<rparr> \<and>
         kv' = kv \<and> evs = [EvGetAttestations a]"
  using assms
  by (auto simp: route_defs validAddress_Some split: route_splits)

lemma success_has_attestations:
  assumes "handler e cfg req kv = (out, kv', evs)"
    and "out = Responded r" and "status r = 200"
  shows "\<exists>b atts. body r = ProofBody b \<and> attestations b = Some atts"
  using assms
  by (auto simp: route_defs validAddress_Some split: route_splits)

lemma configGuards_broken:
  assumes "configBroken cfg"
  shows "configGuards e cfg a kv =
           (Responded \<lparr>status = 500, body = ErrorBody
              (if keyAbsent cfg then ''currently unable to sign''
               else ''invalid verifiedCb1AccountSchemaId'')\<rparr>, kv, [])"
  using assms
  by (auto simp: configGuards_def configBroken_def keyAbsent_def split: option.splits)

text \<open>The provider is queried exactly when the method, the address and the configuration pass.\<close>

lemma query_made_iff:
  assumes "handler e cfg req kv = (out, kv', evs)"
  shows "EvGetAttestations a \<in> set evs \<longleftrightarrow>
           httpMethod req = Some ''GET'' \<and> validAddress e (queryAddress req) = Some a \<and>
           \<not> configBroken cfg"
  using assms
  by (auto simp: route_defs configBroken_def validAddress_Some split: route_splits)

text \<open>
  Inside the \<open>try\<close> every exception (identity resolution, store access, signing) is logged
  and answered with the one generic 500, and the store is as before.
\<close>

lemma try_failures_answered:
  assumes "tryCatch e cfg a res kv = (out, kv', evs)"
  shows "(\<exists>r. out = Responded r) \<and>
         (\<forall>err. EvConsoleError err \<in> set evs \<longrightarrow> kv' = kv \<and>
            out = Responded \<lparr>status = 500, body = ErrorBody ''error generating discount message''\<rparr>)"
  using assms
  by (auto simp: route_defs split: route_splits)

text \<open>Before the \<open>try\<close> a failure of the provider leaves the handler as an exception.\<close>

lemma provider_failure_escapes:
  assumes "getAttestations e a (chainOf cfg) [s1, s2] = Inl err"
  shows "queryAndClaim e cfg a s1 s2 kv = (Uncaught err, kv, [EvGetAttestations a])"
  using assms by (simp add: queryAndClaim_def)

lemma decode_failure_uncaught:
  assumes "getAttestations e a (chainOf cfg) [s1, s2] = Inr atts" and "atts \<noteq> []"
    and "decodeAll e atts = Inl err"
  shows "queryAndClaim e cfg a s1 s2 kv = (Uncaught err, kv, [EvGetAttestations a])"
  using assms by (simp add: queryAndClaim_def)

subsection \<open>The packed message\<close>

lemma length_hexPad: "length (hexPad k n) = k"
  by (induction k arbitrary: n) auto

lemma hexDigit_inj:
  assumes "a < 16" and "b < 16" and "hexDigit a = hexDigit b"
  shows "a = b"
proof -
  have "distinct ''0123456789abcdef''" and "length ''0123456789abcdef'' = 16"
    by simp_all
  with assms show ?thesis
    unfolding hexDigit_def by (simp add: nth_eq_iff_index_eq)
qed

lemma hexPad_inj:
  "n < 16 ^ k \<Longrightarrow> m < 16 ^ k \<Longrightarrow> hexPad k n = hexPad k m \<Longrightarrow> n = m"
proof (induction k arbitrary: n m)
  case 0
  then show ?case by simp
next
  case (Suc k)
  from Suc.prems(3) have hi: "hexPad k (n div 16) = hexPad k (m div 16)"
    and lo: "hexDigit (n mod 16) = hexDigit (m mod 16)"
    by (simp_all add: length_hexPad)
  from Suc.prems(1,2) have "n div 16 < 16 ^ k" and "m div 16 < 16 ^ k"
    by (simp_all add: less_mult_imp_div_less mult.commute)
  with Suc.IH hi have quot: "n div 16 = m div 16"
    by blast
  from lo have rem: "n mod 16 = m mod 16"
    by (intro hexDigit_inj) simp_all
  from quot rem show ?case
    by (metis div_mult_mod_eq)
qed

lemma isAddress_shape:
  assumes "isAddress e s"
  shows "take 2 s = ''0x''" and "length s = 42"
  using assms by (auto simp: isAddress_def addressRegex_def split: if_splits)

lemma toLowerCase_prefix: "toLowerCase ''0x'' = ''0x''"
  by (simp add: toLowerCase_def lowerChar_def)

lemma toLowerCase_drop:
  assumes "isAddress e s" and "isAddress e t"
  shows "drop 2 (toLowerCase s) = drop 2 (toLowerCase t) \<longleftrightarrow> toLowerCase s = toLowerCase t"
proof -
  have split: "toLowerCase u = ''0x'' @ drop 2 (toLowerCase u)" if "isAddress e u" for u
  proof -
    from isAddress_shape(1) [OF that] have "take 2 (toLowerCase u) = toLowerCase ''0x''"
      by (simp add: toLowerCase_def take_map)
    then have "take 2 (toLowerCase u) = ''0x''"
      by (simp add: toLowerCase_prefix)
    then show ?thesis
      by (metis append_take_drop_id)
  qed
  from split [OF assms(1)] split [OF assms(2)] show ?thesis
    by metis
qed

lemma length_lower_body: "isAddress e s \<Longrightarrow> length (drop 2 (toLowerCase s)) = 40"
  by (simp add: toLowerCase_def isAddress_shape(2))

lemma encodePacked_layout:
  assumes "encodePacked e s c n = Inr m"
  shows "m = ''0x1900'' @ drop 2 (toLowerCase s) @ drop 2 (toLowerCase c) @ hexPad 64 (nat n)"
    and "isAddress e s" and "isAddress e c" and "0 \<le> n" and "n < 2 ^ 256"
  using assms by (auto simp: encodePacked_def split: if_splits)

lemma length_encodePacked:
  assumes "encodePacked e s c n = Inr m"
  shows "length m = 150"
  using encodePacked_layout [OF assms]
  by (simp add: length_hexPad toLowerCase_def isAddress_shape(2))

lemma encodePacked_inj:
  assumes "encodePacked e s c n = Inr m" and "encodePacked e s' c' n' = Inr m'"
  shows "m = m' \<longleftrightarrow> toLowerCase s = toLowerCase s' \<and> toLowerCase c = toLowerCase c' \<and> n = n'"
proof -
  note l = encodePacked_layout [OF assms(1)] and l' = encodePacked_layout [OF assms(2)]
  have bound: "nat n < 16 ^ 64" "nat n' < 16 ^ 64"
    using l(4,5) l'(4,5) by (simp_all add: nat_less_iff)
  have "m = m' \<longleftrightarrow>
          drop 2 (toLowerCase s) = drop 2 (toLowerCase s') \<and>
          drop 2 (toLowerCase c) = drop 2 (toLowerCase c') \<and>
          hexPad 64 (nat n) = hexPad 64 (nat n')"
    unfolding l(1) l'(1)
    using length_lower_body [OF l(2)] length_lower_body [OF l'(2)]
      length_lower_body [OF l(3)] length_lower_body [OF l'(3)]
    by simp
  also have "hexPad 64 (nat n) = hexPad 64 (nat n') \<longleftrightarrow> n = n'"
    using hexPad_inj [OF bound] l(4) l'(4) by auto
  finally show ?thesis
    by (simp add: toLowerCase_drop [OF l(2) l'(2)] toLowerCase_drop [OF l(3) l'(3)])
qed

lemma signMessage_shape:
  assumes "signMessage e cfg a = Inr sm"
  shows "\<exists>pkey account n message signature.
           trustedSignerPKey cfg = Some pkey \<and> privateKeyToAccount e pkey = Inr account \<and>
           bigInt e (expiry cfg) = Inr n \<and>
           encodePacked e (trustedSignerAddress cfg) a n = Inr message \<and>
           accountSignMessage e account (keccak256 e message) = Inr signature \<and>
           encodeAbiParameters e a n signature = Inr sm"
  using assms
  by (auto simp: signMessage_def messageOf_def Let_def split: option.splits sum.splits)

subsection \<open>Runs in the concrete environment\<close>

lemma run_first:
  "handler sampleEnv sampleConfig (getRequest addrA) Map.empty =
     (Responded \<lparr>status = 200, body = ProofBody
        \<lparr>signedMessage' = Some ''0xabi0xs'', attestations = Some [Some (JBool True)],
         linkedAddresses = Some [addrA, addrB]\<rparr>\<rparr>,
      storeA,
      [EvGetAttestations addrA, EvGetLinkedAddresses addrA, EvKvGet keyA, EvSignMessage addrA,
       EvKvSet keyA claimA (Num 300)])"
  by (simp add: route_defs sample_defs prim_defs)

lemma run_replay:
  "handler sampleEnv sampleConfig (getRequest addrA) storeA =
     (Responded \<lparr>status = 200, body = ProofBody
        \<lparr>signedMessage' = Some ''0xabi0xs'', attestations = Some [Some (JBool True)],
         linkedAddresses = Some [addrA, addrB]\<rparr>\<rparr>,
      storeA,
      [EvGetAttestations addrA, EvGetLinkedAddresses addrA, EvKvGet keyA])"
  by (simp add: route_defs sample_defs prim_defs)

lemma run_conflict:
  "handler sampleEnv sampleConfig (getRequest addrB) storeA =
     (Responded \<lparr>status = 409, body = ErrorBody '' ''\<rparr>, storeA,
      [EvGetAttestations addrB, EvGetLinkedAddresses addrB, EvKvGet keyA])"
  by (simp add: route_defs sample_defs prim_defs)

lemma run_first_checksum:
  "handler sampleEnv sampleConfig (getRequest addrAChecksum) Map.empty =
     (Responded \<lparr>status = 200, body = ProofBody
        \<lparr>signedMessage' = Some ''0xabi0xs'', attestations = Some [Some (JBool True)],
         linkedAddresses = Some [addrA, addrB]\<rparr>\<rparr>,
      storeAChecksum,
      [EvGetAttestations addrAChecksum, EvGetLinkedAddresses addrAChecksum, EvKvGet keyA,
       EvSignMessage addrAChecksum, EvKvSet keyA claimAChecksum (Num 300)])"
  by (simp add: route_defs sample_defs prim_defs)

lemma run_case_variant:
  "handler sampleEnv sampleConfig (getRequest addrA) storeAChecksum =
     (Responded \<lparr>status = 409, body = ErrorBody '' ''\<rparr>, storeAChecksum,
      [EvGetAttestations addrA, EvGetLinkedAddresses addrA, EvKvGet keyA])"
  by (simp add: route_defs sample_defs prim_defs)

lemma run_none:
  "handler sampleEnv sampleConfig (getRequest addrNone) storeA =
     (Responded \<lparr>status = 200, body = ProofBody
        \<lparr>signedMessage' = None, attestations = Some [], linkedAddresses = None\<rparr>\<rparr>,
      storeA, [EvGetAttestations addrNone])"
  by (simp add: route_defs sample_defs prim_defs)

lemma run_sign_failure:
  "handler sampleEnv configBadExpiry (getRequest addrA) Map.empty =
     (Responded \<lparr>status = 500, body = ErrorBody ''error generating discount message''\<rparr>,
      Map.empty,
      [EvGetAttestations addrA, EvGetLinkedAddresses addrA, EvKvGet keyA, EvSignMessage addrA,
       EvConsoleError SyntaxError])"
  by (simp add: route_defs sample_defs prim_defs)

lemma run_no_key:
  "handler sampleEnv configNoKey (getRequest addrA) Map.empty =
     (Responded \<lparr>status = 500, body = ErrorBody ''currently unable to sign''\<rparr>, Map.empty, [])"
  by (simp add: route_defs sample_defs prim_defs keyAbsent_def)

lemma hexPad_300:
  "hexPad 64 300 = ''000000000000000000000000000000000000000000000000000000000000012c''"
  by code_simp

lemma packed_addrA:
  "encodePacked sampleEnv signerAddr addrA 300 =
     Inr (''0x1900'' @ ''52908400098527886e0f7030069857d2e4169ee7''
          @ ''5aaeb6053f3e94c9b9a09f33669435e7ef1beaed''
          @ ''000000000000000000000000000000000000000000000000000000000000012c'')"
  by (simp add: sample_defs prim_defs hexPad_300)

lemma packed_addrAChecksum:
  "encodePacked sampleEnv signerAddr addrAChecksum 300 =
     Inr (''0x1900'' @ ''52908400098527886e0f7030069857d2e4169ee7''
          @ ''5aaeb6053f3e94c9b9a09f33669435e7ef1beaed''
          @ ''000000000000000000000000000000000000000000000000000000000000012c'')"
  by (simp add: sample_defs prim_defs hexPad_300)

lemma packed_addrB:
  "encodePacked sampleEnv signerAddr addrB 300 =
     Inr (''0x1900'' @ ''52908400098527886e0f7030069857d2e4169ee7''
          @ ''fb6916095ca1df60bb79ce92ce3ea74c37c5d359''
          @ ''000000000000000000000000000000000000000000000000000000000000012c'')"
  by (simp add: sample_defs prim_defs hexPad_300)

lemma sign_addrA: "signMessage sampleEnv sampleConfig addrA = Inr ''0xabi0xs''"
  by (simp add: sample_defs prim_defs)

lemma sign_bad_expiry: "signMessage sampleEnv configBadExpiry addrA = Inl SyntaxError"
  by (simp add: sample_defs prim_defs)

section \<open>One record per key\<close>

text \<open>
  Claim C1. The store maps a key to at most one record. In every run of the handler: when
  the lookup finds a record whose address is not the address of the request, the answer is
  409, the store is returned as it was and the run attempts no store write; and whatever
  the run does, every entry the store held before it is still there, unchanged, after it,
  so a record's address is never replaced.
\<close>

theorem conflict_keeps_record:
  assumes "handler e cfg req kv = (out, kv', evs)"
  shows "(\<forall>k r. found e kv evs k r \<and> queryAddress req \<noteq> QStr (address r) \<longrightarrow>
            out = Responded \<lparr>status = 409, body = ErrorBody '' ''\<rparr> \<and> kv' = kv \<and>
            filter isStoreWrite evs = []) \<and>
         (\<forall>k v. kv k = Some v \<longrightarrow> kv' k = Some v)"
  using hit_conflict [OF assms] handler_keeps_entries [OF assms] by blast

theorem conflict_keeps_record_witness:
  "handler sampleEnv sampleConfig (getRequest addrB) storeA =
     (Responded \<lparr>status = 409, body = ErrorBody '' ''\<rparr>, storeA,
      [EvGetAttestations addrB, EvGetLinkedAddresses addrB, EvKvGet keyA]) \<and>
   found sampleEnv storeA
     [EvGetAttestations addrB, EvGetLinkedAddresses addrB, EvKvGet keyA] keyA claimA \<and>
   queryAddress (getRequest addrB) \<noteq> QStr (address claimA) \<and>
   storeA keyA = Some (claimA, Num 300) \<and>
   filter isStoreWrite [EvGetAttestations addrB, EvGetLinkedAddresses addrB, EvKvGet keyA] = []"
proof -
  have hit: "found sampleEnv storeA
      [EvGetAttestations addrB, EvGetLinkedAddresses addrB, EvKvGet keyA] keyA claimA"
    by (simp add: found_def kvGet_def sampleEnv_def storeA_def)
  have other: "queryAddress (getRequest addrB) \<noteq> QStr (address claimA)"
    by (simp add: getRequest_def claimA_def addrA_def addrB_def)
  have entry: "storeA keyA = Some (claimA, Num 300)"
    by (simp add: storeA_def)
  from conflict_keeps_record [OF run_conflict] hit other entry run_conflict
  show ?thesis by blast
qed

section \<open>Replay\<close>

text \<open>
  Claim C2. In every run of the handler: when the lookup finds a record whose address is
  the address of the request, the answer is 200 and carries the stored \<open>signedMessage\<close>
  as it is, and \<open>signMessage\<close> is not called. Hence, when a call is answered with 200 and
  a \<open>signedMessage\<close>, the same request run again on the store that call left (same
  collaborators, entry not yet expired) gets the identical answer without a call of
  \<open>signMessage\<close>.
\<close>

theorem idempotent_replay:
  assumes "handler e cfg req kv = (out, kv', evs)"
  shows "(\<forall>k r. found e kv evs k r \<and> queryAddress req = QStr (address r) \<longrightarrow>
            (\<exists>atts linked. out = Responded \<lparr>status = 200, body = ProofBody
               \<lparr>signedMessage' = Some (signedMessage r), attestations = Some atts,
                linkedAddresses = Some linked\<rparr>\<rparr>) \<and>
            filter isSignerCall evs = []) \<and>
         (\<forall>b s. out = Responded \<lparr>status = 200, body = ProofBody b\<rparr> \<and>
                 signedMessage' b = Some s \<longrightarrow>
            (\<exists>evs2. handler e cfg req kv' = (out, kv', evs2) \<and>
                     filter isSignerCall evs2 = []))"
  using hit_replay(1,4) [OF assms] second_call [OF assms] by blast

theorem idempotent_replay_witness:
  "handler sampleEnv sampleConfig (getRequest addrA) Map.empty =
     (Responded \<lparr>status = 200, body = ProofBody
        \<lparr>signedMessage' = Some ''0xabi0xs'', attestations = Some [Some (JBool True)],
         linkedAddresses = Some [addrA, addrB]\<rparr>\<rparr>,
      storeA,
      [EvGetAttestations addrA, EvGetLinkedAddresses addrA, EvKvGet keyA, EvSignMessage addrA,
       EvKvSet keyA claimA (Num 300)]) \<and>
   handler sampleEnv sampleConfig (getRequest addrA) storeA =
     (Responded \<lparr>status = 200, body = ProofBody
        \<lparr>signedMessage' = Some ''0xabi0xs'', attestations = Some [Some (JBool True)],
         linkedAddresses = Some [addrA, addrB]\<rparr>\<rparr>,
      storeA,
      [EvGetAttestations addrA, EvGetLinkedAddresses addrA, EvKvGet keyA]) \<and>
   found sampleEnv storeA
     [EvGetAttestations addrA, EvGetLinkedAddresses addrA, EvKvGet keyA] keyA claimA \<and>
   queryAddress (getRequest addrA) = QStr (address claimA) \<and>
   signedMessage claimA = ''0xabi0xs'' \<and>
   filter isSignerCall [EvGetAttestations addrA, EvGetLinkedAddresses addrA, EvKvGet keyA] = []"
proof -
  have hit: "found sampleEnv storeA
      [EvGetAttestations addrA, EvGetLinkedAddresses addrA, EvKvGet keyA] keyA claimA"
    by (simp add: found_def kvGet_def sampleEnv_def storeA_def)
  have same: "queryAddress (getRequest addrA) = QStr (address claimA)"
    by (simp add: getRequest_def claimA_def)
  have msg: "signedMessage claimA = ''0xabi0xs''"
    by (simp add: claimA_def)
  from idempotent_replay [OF run_replay] idempotent_replay [OF run_first]
    hit same msg run_first run_replay
  show ?thesis by blast
qed

section \<open>Failures of the collaborators\<close>

text \<open>
  Claim C3. The claim asks that a payload that is not JSON be answered with a 500 of the
  handler. The decoding stands before the \<open>try\<close>: for the address whose attestation
  carries the payload \<open>{\<close>, the run ends in the exception \<open>SyntaxError\<close> leaving the
  handler, after the one attestation query, and no response is written.
\<close>

theorem decode_failure_escapes:
  "handler sampleEnv sampleConfig (getRequest addrBad) Map.empty =
     (Uncaught SyntaxError, Map.empty, [EvGetAttestations addrBad])"
  by (simp add: route_defs sample_defs prim_defs)

section \<open>The store write\<close>

text \<open>
  Claim C4. In every run of the handler: a store write is attempted only with a record
  whose \<open>signedMessage\<close> is what \<open>signMessage\<close> returned for the request's address, and
  with the option \<open>ex\<close> equal to the constant \<open>expiry\<close>; the store after the run is the
  store before it, or that store with one new entry, under a key that had none, stored
  with \<open>ex = expiry\<close>; a run that does not end in a 200 response leaves the store as it
  was; and when \<open>signMessage\<close> fails for the request's address, the store is as it was and
  no write is attempted.
\<close>

theorem commit_after_signing:
  assumes "handler e cfg req kv = (out, kv', evs)"
  shows "(\<forall>k c x. EvKvSet k c x \<in> set evs \<longrightarrow>
            queryAddress req = QStr (address c) \<and>
            signMessage e cfg (address c) = Inr (signedMessage c) \<and> x = expiry cfg) \<and>
         (kv' = kv \<or> (\<exists>k c. kv' = kv(k \<mapsto> (c, expiry cfg)) \<and> kv k = None \<and>
            EvKvSet k c (expiry cfg) \<in> set evs)) \<and>
         ((\<forall>b. out \<noteq> Responded \<lparr>status = 200, body = b\<rparr>) \<longrightarrow> kv' = kv) \<and>
         (\<forall>a err. queryAddress req = QStr a \<and> signMessage e cfg a = Inl err \<longrightarrow>
            kv' = kv \<and> filter isStoreWrite evs = [])"
  using write_event [OF assms] store_change [OF assms] error_keeps_store [OF assms]
    sign_failure_keeps_store [OF assms]
  by blast

theorem commit_after_signing_witness:
  "handler sampleEnv sampleConfig (getRequest addrA) Map.empty =
     (Responded \<lparr>status = 200, body = ProofBody
        \<lparr>signedMessage' = Some ''0xabi0xs'', attestations = Some [Some (JBool True)],
         linkedAddresses = Some [addrA, addrB]\<rparr>\<rparr>,
      storeA,
      [EvGetAttestations addrA, EvGetLinkedAddresses addrA, EvKvGet keyA, EvSignMessage addrA,
       EvKvSet keyA claimA (Num 300)]) \<and>
   EvKvSet keyA claimA (Num 300) \<in>
     set [EvGetAttestations addrA, EvGetLinkedAddresses addrA, EvKvGet keyA,
          EvSignMessage addrA, EvKvSet keyA claimA (Num 300)] \<and>
   signMessage sampleEnv sampleConfig (address claimA) = Inr (signedMessage claimA) \<and>
   Num 300 = expiry sampleConfig \<and>
   storeA = Map.empty(keyA \<mapsto> (claimA, expiry sampleConfig)) \<and>
   handler sampleEnv configBadExpiry (getRequest addrA) Map.empty =
     (Responded \<lparr>status = 500, body = ErrorBody ''error generating discount message''\<rparr>,
      Map.empty,
      [EvGetAttestations addrA, EvGetLinkedAddresses addrA, EvKvGet keyA, EvSignMessage addrA,
       EvConsoleError SyntaxError]) \<and>
   queryAddress (getRequest addrA) = QStr addrA \<and>
   signMessage sampleEnv configBadExpiry addrA = Inl SyntaxError"
proof -
  have ev: "EvKvSet keyA claimA (Num 300) \<in>
      set [EvGetAttestations addrA, EvGetLinkedAddresses addrA, EvKvGet keyA,
           EvSignMessage addrA, EvKvSet keyA claimA (Num 300)]"
    by simp
  have q: "queryAddress (getRequest addrA) = QStr addrA"
    by (simp add: getRequest_def)
  have st: "storeA = Map.empty(keyA \<mapsto> (claimA, expiry sampleConfig))"
    by (simp add: storeA_def expiry_def sampleConfig_def)
  from commit_after_signing [OF run_first] commit_after_signing [OF run_sign_failure]
    ev q st run_first run_sign_failure sign_bad_expiry
  show ?thesis by blast
qed

section \<open>Ineligible addresses\<close>

text \<open>
  Claim C5. In every run of the handler: when the provider was queried for the address and
  returned no attestation, the answer is 200 with the body \<open>{attestations: []}\<close>, without
  \<open>signedMessage\<close> and without \<open>linkedAddresses\<close>; the attestation query is the run's only
  call (no identity resolution, no store read, no store write) and the store is as it
  was. And every 200 response of the handler has the field \<open>attestations\<close>.
\<close>

theorem ineligible_address:
  assumes "handler e cfg req kv = (out, kv', evs)"
  shows "(\<forall>a s1 s2. EvGetAttestations a \<in> set evs \<and>
              verifiedAccountSchemaId cfg = Some s1 \<and> verifiedCb1AccountSchemaId cfg = Some s2 \<and>
              getAttestations e a (chainOf cfg) [s1, s2] = Inr [] \<longrightarrow>
            out = Responded \<lparr>status = 200, body = ProofBody
              \<lparr>signedMessage' = None, attestations = Some [], linkedAddresses = None\<rparr>\<rparr> \<and>
            kv' = kv \<and> evs = [EvGetAttestations a]) \<and>
         (\<forall>r. out = Responded r \<and> status r = 200 \<longrightarrow>
            (\<exists>b atts. body r = ProofBody b \<and> attestations b = Some atts))"
  using empty_attestations [OF assms] success_has_attestations [OF assms] by blast

theorem ineligible_address_witness:
  "handler sampleEnv sampleConfig (getRequest addrNone) storeA =
     (Responded \<lparr>status = 200, body = ProofBody
        \<lparr>signedMessage' = None, attestations = Some [], linkedAddresses = None\<rparr>\<rparr>,
      storeA, [EvGetAttestations addrNone]) \<and>
   EvGetAttestations addrNone \<in> set [EvGetAttestations addrNone] \<and>
   verifiedAccountSchemaId sampleConfig = Some ''0xf8b0'' \<and>
   verifiedCb1AccountSchemaId sampleConfig = Some ''0x254b'' \<and>
   getAttestations sampleEnv addrNone (chainOf sampleConfig) [''0xf8b0'', ''0x254b''] = Inr [] \<and>
   status \<lparr>status = 200, body = ProofBody
        \<lparr>signedMessage' = None, attestations = Some [], linkedAddresses = None\<rparr>\<rparr> = 200"
proof -
  have ev: "EvGetAttestations addrNone \<in> set [EvGetAttestations addrNone]"
    by simp
  have s1: "verifiedAccountSchemaId sampleConfig = Some ''0xf8b0''"
    and s2: "verifiedCb1AccountSchemaId sampleConfig = Some ''0x254b''"
    by (simp_all add: sampleConfig_def)
  have none: "getAttestations sampleEnv addrNone (chainOf sampleConfig)
      [''0xf8b0'', ''0x254b''] = Inr []"
    by (simp add: sampleEnv_def addrNone_def addrBad_def)
  from ineligible_address [OF run_none] ev s1 s2 none run_none
  show ?thesis by simp
qed

section \<open>The message that is signed\<close>

text \<open>
  Claim C6. The packed message is a function of the signer's address, the claimer's
  address and the expiry: where the encoding succeeds it is the two bytes \<open>0x1900\<close>, the
  20 bytes of the signer, the 20 bytes of the claimer and the expiry as 32 bytes (74 bytes,
  a hex string of 150 characters). Two tuples give the same message exactly when they
  hold the same signer, the same claimer and the same expiry, an address being its 20
  bytes (two spellings of one address differ in the case of hex letters only). In
  \<open>signMessage\<close> the signature is taken over \<open>keccak256\<close> of this message.
\<close>

theorem message_encoding:
  assumes "encodePacked e s c n = Inr m" and "encodePacked e s' c' n' = Inr m'"
  shows "m = ''0x1900'' @ drop 2 (toLowerCase s) @ drop 2 (toLowerCase c) @ hexPad 64 (nat n) \<and>
         length m = 150 \<and>
         (m = m' \<longleftrightarrow>
            toLowerCase s = toLowerCase s' \<and> toLowerCase c = toLowerCase c' \<and> n = n') \<and>
         (\<forall>cfg a sm. signMessage e cfg a = Inr sm \<longrightarrow>
            (\<exists>pkey account k message signature.
               trustedSignerPKey cfg = Some pkey \<and> privateKeyToAccount e pkey = Inr account \<and>
               bigInt e (expiry cfg) = Inr k \<and>
               encodePacked e (trustedSignerAddress cfg) a k = Inr message \<and>
               accountSignMessage e account (keccak256 e message) = Inr signature \<and>
               encodeAbiParameters e a k signature = Inr sm))"
  using encodePacked_layout(1) [OF assms(1)] length_encodePacked [OF assms(1)]
    encodePacked_inj [OF assms] signMessage_shape [of e]
  by blast

theorem message_encoding_witness:
  "encodePacked sampleEnv signerAddr addrA 300 =
     Inr (''0x1900'' @ ''52908400098527886e0f7030069857d2e4169ee7''
          @ ''5aaeb6053f3e94c9b9a09f33669435e7ef1beaed''
          @ ''000000000000000000000000000000000000000000000000000000000000012c'') \<and>
   encodePacked sampleEnv signerAddr addrB 300 =
     Inr (''0x1900'' @ ''52908400098527886e0f7030069857d2e4169ee7''
          @ ''fb6916095ca1df60bb79ce92ce3ea74c37c5d359''
          @ ''000000000000000000000000000000000000000000000000000000000000012c'') \<and>
   toLowerCase addrA \<noteq> toLowerCase addrB \<and>
   encodePacked sampleEnv signerAddr addrAChecksum 300 =
     encodePacked sampleEnv signerAddr addrA 300 \<and>
   toLowerCase addrAChecksum = toLowerCase addrA \<and>
   signMessage sampleEnv sampleConfig addrA = Inr ''0xabi0xs''"
proof -
  have diff: "toLowerCase addrA \<noteq> toLowerCase addrB"
    by (simp add: addrA_def addrB_def toLowerCase_def lowerChar_def)
  have same: "toLowerCase addrAChecksum = toLowerCase addrA"
    by (simp add: addrA_def addrAChecksum_def toLowerCase_def lowerChar_def char_of_lower_hex)
  from message_encoding [OF packed_addrA packed_addrB]
    message_encoding [OF packed_addrAChecksum packed_addrA]
    diff same packed_addrA packed_addrB packed_addrAChecksum sign_addrA
  show ?thesis by simp
qed

section \<open>Configuration errors\<close>

text \<open>
  Claim C7, as stated, fails: with the signer key absent a request that is not a \<open>GET\<close>
  is answered with 405, not 500, since the method and the address are tested before the
  configuration.
\<close>

theorem missing_key_other_method:
  "trustedSignerPKey configNoKey = None \<and>
   handler sampleEnv configNoKey (postRequest addrA) Map.empty =
     (Responded \<lparr>status = 405, body = ErrorBody ''method not allowed''\<rparr>, Map.empty, [])"
  by (simp add: handler_def configNoKey_def sampleConfig_def postRequest_def)

text \<open>
  Claim C7, amended. Under a configuration whose signer key is absent or empty, or one of
  whose schema identifiers is absent or not hex, no run of the handler calls a
  collaborator and the store is as it was; and a \<open>GET\<close> request with a valid address is
  answered with 500, with the text of the guard that fired.
\<close>

theorem config_error_before_calls:
  assumes "handler e cfg req kv = (out, kv', evs)" and "configBroken cfg"
  shows "evs = [] \<and> kv' = kv \<and>
         (httpMethod req = Some ''GET'' \<and> validAddress e (queryAddress req) \<noteq> None \<longrightarrow>
            out = Responded \<lparr>status = 500, body = ErrorBody
              (if keyAbsent cfg then ''currently unable to sign''
               else ''invalid verifiedCb1AccountSchemaId'')\<rparr>)"
  using assms(1) configGuards_broken [OF assms(2), of e _ kv]
  by (auto simp: handler_def split: if_splits option.splits)

theorem config_error_before_calls_witness:
  "handler sampleEnv configNoKey (getRequest addrA) Map.empty =
     (Responded \<lparr>status = 500, body = ErrorBody ''currently unable to sign''\<rparr>, Map.empty, []) \<and>
   configBroken configNoKey \<and> keyAbsent configNoKey \<and>
   httpMethod (getRequest addrA) = Some ''GET'' \<and>
   validAddress sampleEnv (queryAddress (getRequest addrA)) \<noteq> None"
proof -
  have broken: "configBroken configNoKey" and absent: "keyAbsent configNoKey"
    by (simp_all add: configBroken_def keyAbsent_def configNoKey_def)
  have get: "httpMethod (getRequest addrA) = Some ''GET''"
    by (simp add: getRequest_def)
  have valid: "validAddress sampleEnv (queryAddress (getRequest addrA)) \<noteq> None"
    by (simp add: sample_defs prim_defs)
  from config_error_before_calls [OF run_no_key broken] broken absent get valid run_no_key
  show ?thesis by simp
qed

section \<open>Method rejection\<close>

text \<open>
  Claim C8. A request whose method is not \<open>GET\<close> is answered with 405; the run calls no
  collaborator (no event at all: no store read or write, no attestation query, no identity
  resolution) and leaves the store as it was.
\<close>

theorem method_rejection:
  "httpMethod req \<noteq> Some ''GET'' \<Longrightarrow>
     handler e cfg req kv =
       (Responded \<lparr>status = 405, body = ErrorBody ''method not allowed''\<rparr>, kv, [])"
  by (simp add: handler_def)

theorem method_rejection_witness:
  "httpMethod (postRequest addrA) \<noteq> Some ''GET'' \<and>
   handler sampleEnv sampleConfig (postRequest addrA) Map.empty =
     (Responded \<lparr>status = 405, body = ErrorBody ''method not allowed''\<rparr>, Map.empty, [])"
  using method_rejection [of "postRequest addrA" sampleEnv sampleConfig Map.empty]
  by (simp add: postRequest_def)

section \<open>Spellings of one address\<close>

text \<open>
  Claim C9. The stored address and the request's address are compared as strings: when the
  lookup finds a record whose address differs from the request's address in the case of
  letters only, the answer is 409, not the stored authorization.
\<close>

theorem case_variant_conflict:
  assumes "handler e cfg req kv = (out, kv', evs)"
    and "found e kv evs k r" and "queryAddress req = QStr a"
    and "address r \<noteq> a" and "toLowerCase (address r) = toLowerCase a"
  shows "out = Responded \<lparr>status = 409, body = ErrorBody '' ''\<rparr>"
  using hit_conflict(1) [OF assms(1,2)] assms(3,4) by simp

theorem case_variant_conflict_witness:
  "handler sampleEnv sampleConfig (getRequest addrAChecksum) Map.empty =
     (Responded \<lparr>status = 200, body = ProofBody
        \<lparr>signedMessage' = Some ''0xabi0xs'', attestations = Some [Some (JBool True)],
         linkedAddresses = Some [addrA, addrB]\<rparr>\<rparr>,
      storeAChecksum,
      [EvGetAttestations addrAChecksum, EvGetLinkedAddresses addrAChecksum, EvKvGet keyA,
       EvSignMessage addrAChecksum, EvKvSet keyA claimAChecksum (Num 300)]) \<and>
   handler sampleEnv sampleConfig (getRequest addrA) storeAChecksum =
     (Responded \<lparr>status = 409, body = ErrorBody '' ''\<rparr>, storeAChecksum,
      [EvGetAttestations addrA, EvGetLinkedAddresses addrA, EvKvGet keyA]) \<and>
   found sampleEnv storeAChecksum
     [EvGetAttestations addrA, EvGetLinkedAddresses addrA, EvKvGet keyA] keyA claimAChecksum \<and>
   queryAddress (getRequest addrA) = QStr addrA \<and>
   address claimAChecksum \<noteq> addrA \<and>
   toLowerCase (address claimAChecksum) = toLowerCase addrA"
proof -
  have hit: "found sampleEnv storeAChecksum
      [EvGetAttestations addrA, EvGetLinkedAddresses addrA, EvKvGet keyA] keyA claimAChecksum"
    by (simp add: found_def kvGet_def sampleEnv_def storeAChecksum_def)
  have q: "queryAddress (getRequest addrA) = QStr addrA"
    by (simp add: getRequest_def)
  have ne: "address claimAChecksum \<noteq> addrA"
    by (simp add: claimAChecksum_def addrA_def addrAChecksum_def)
  have lower: "toLowerCase (address claimAChecksum) = toLowerCase addrA"
    by (simp add: claimAChecksum_def addrA_def addrAChecksum_def toLowerCase_def lowerChar_def
        char_of_lower_hex)
  from case_variant_conflict [OF run_case_variant hit q ne lower]
    hit q ne lower run_first_checksum run_case_variant
  show ?thesis by simp
qed

section \<open>A replay leaves the store alone\<close>

text \<open>
  Claim C10. When the lookup finds a record whose address is the address of the request,
  the run attempts no store write and returns the store as it was: the record and the
  \<open>ex\<close> it was stored with are untouched, so a replay does not renew the entry's
  time-to-live.
\<close>

theorem replay_leaves_store:
  assumes "handler e cfg req kv = (out, kv', evs)"
    and "found e kv evs k r" and "queryAddress req = QStr (address r)"
  shows "kv' = kv \<and> kv' k = kv k \<and> filter isStoreWrite evs = []"
  using hit_replay(2,3) [OF assms] by simp

theorem replay_leaves_store_witness:
  "handler sampleEnv sampleConfig (getRequest addrA) storeA =
     (Responded \<lparr>status = 200, body = ProofBody
        \<lparr>signedMessage' = Some ''0xabi0xs'', attestations = Some [Some (JBool True)],
         linkedAddresses = Some [addrA, addrB]\<rparr>\<rparr>,
      storeA,
      [EvGetAttestations addrA, EvGetLinkedAddresses addrA, EvKvGet keyA]) \<and>
   found sampleEnv storeA
     [EvGetAttestations addrA, EvGetLinkedAddresses addrA, EvKvGet keyA] keyA claimA \<and>
   queryAddress (getRequest addrA) = QStr (address claimA) \<and>
   storeA keyA = Some (claimA, Num 300) \<and>
   filter isStoreWrite [EvGetAttestations addrA, EvGetLinkedAddresses addrA, EvKvGet keyA] = []"
proof -
  have hit: "found sampleEnv storeA
      [EvGetAttestations addrA, EvGetLinkedAddresses addrA, EvKvGet keyA] keyA claimA"
    by (simp add: found_def kvGet_def sampleEnv_def storeA_def)
  have same: "queryAddress (getRequest addrA) = QStr (address claimA)"
    by (simp add: getRequest_def claimA_def)
  have entry: "storeA keyA = Some (claimA, Num 300)"
    by (simp add: storeA_def)
  from replay_leaves_store [OF run_replay hit same] hit same entry run_replay
  show ?thesis by simp
qed

end
